theory Spec2Isabelle
  imports Main "HOL-Library.Word"
begin

unbundle bit_operations_syntax

section \<open>Data model of \<open>ble_advertise.h\<close> and \<open>ble_advertise.c\<close>\<close>

type_synonym u8 = "8 word"
type_synonym u16 = "16 word"
type_synonym u32 = "32 word"

text \<open>
  A C \<open>float\<close> on the target is an IEEE-754 binary32 value. The code never computes with
  the three measurements: it only reads their object representation through
  \<open>*(uint32_t*)&temp\<close>. A float is therefore modelled by its 32-bit pattern, so that
  NaNs, infinities, signed zeros and subnormals are all ordinary values of the type.
\<close>

datatype float32 = Float32 (float_bits: u32)

text \<open>\<open>sensor_data_t\<close> of \<open>ble_advertise.h\<close>.\<close>

record sensor_data_t =
  temperature :: float32
  pressure :: float32
  humidity :: float32

text \<open>The macros of \<open>ble_advertise.h\<close>. \<open>BLE_COMPANY_ID\<close> is a C \<open>int\<close> constant.\<close>

definition BLE_COMPANY_ID :: u32 where
  "BLE_COMPANY_ID = 0xFFFF"

definition BLE_MAGIC_0 :: u8 where
  "BLE_MAGIC_0 = 0x01"

definition BLE_MAGIC_1 :: u8 where
  "BLE_MAGIC_1 = 0xD0"

text \<open>The macros of \<open>ble_advertise.c\<close>.\<close>

definition ADV_INTERVAL_MIN_MS :: u16 where
  "ADV_INTERVAL_MIN_MS = 800"

definition ADV_INTERVAL_MAX_MS :: u16 where
  "ADV_INTERVAL_MAX_MS = 800"

definition ADV_TYPE :: u8 where
  "ADV_TYPE = 0"

text \<open>
  The constants and packet accessors that \<open>ble_advertise.c\<close> takes from the headers of
  the radio stack (\<open>btstack.h\<close>), which are not part of the sources. They are parameters
  of the model: every function that uses one of them takes the record, and the theorems
  hold for every value of its fields. \<open>gap_local_bd_addr\<close> is the address the stack
  reports for the local controller.
\<close>

record btstack =
  BLUETOOTH_DATA_TYPE_FLAGS :: u8
  BLUETOOTH_DATA_TYPE_MANUFACTURER_SPECIFIC_DATA :: u8
  HCI_EVENT_PACKET :: u8
  BTSTACK_EVENT_STATE :: u8
  HCI_STATE_WORKING :: u8
  hci_event_packet_get_type :: "u8 list \<Rightarrow> u8"
  btstack_event_state_get_state :: "u8 list \<Rightarrow> u8"
  gap_local_bd_addr :: "u8 list"

text \<open>
  The calls into the radio stack and the platform, in the order the code makes them, and
  the lines it prints. Both are kept in the state as traces, so that "no radio call is
  made" is the statement that the trace is unchanged.
\<close>

datatype hci_power = HCI_POWER_OFF | HCI_POWER_ON

datatype radio_call =
    Cyw43_arch_init
  | L2cap_init
  | Sm_init
  | Hci_add_event_handler
  | Hci_power_control hci_power
  | Gap_advertisements_set_params u16 u16 u8 u8 "u8 list" u8 u8
  | Gap_advertisements_set_data u8 "u8 list"
  | Gap_advertisements_enable u8
  | Cyw43_arch_deinit

datatype log_line =
    Log_adv_data_too_long u8
  | Log_up_and_running "u8 list"
  | Log_advertising_enabled u32
  | Log_already_initialized
  | Log_cyw43_arch_init_returned int
  | Log_initialization_started u32
  | Log_waiting_for_btstack
  | Log_updated_advertisement u32 float32 float32 float32
  | Log_deinitialized

text \<open>
  The file-scope variables of \<open>ble_advertise.c\<close>, with the two traces. \<open>adv_data\<close> is
  the 31-byte buffer \<open>uint8_t adv_data[31]\<close>.
\<close>

record ble =
  ble_initialized :: bool
  device_id :: u32
  reading_id :: u32
  adv_data :: "u8 list"
  adv_data_len :: u8
  radio :: "radio_call list"
  console :: "log_line list"

text \<open>The static initialisers: everything zero, nothing called, nothing printed.\<close>

definition ble_boot :: ble where
  "ble_boot = \<lparr>ble_initialized = False, device_id = 0, reading_id = 0,
     adv_data = replicate 31 0, adv_data_len = 0, radio = [], console = []\<rparr>"

section \<open>The encoder\<close>

text \<open>
  A write cursor into a byte buffer: the buffer and the offset of \<open>p\<close> from its start.
  \<open>put v\<close> is the statement \<open>*p++ = v\<close>. A write past the end of the buffer is undefined
  behaviour in C; here it leaves the list as it is and still advances the cursor. The
  theorems about the bytes written fix the length of the buffer (22 for the payload, 31
  for \<open>adv_data\<close>), and then every write is in range.
\<close>

type_synonym cursor = "u8 list \<times> nat"

definition put :: "u8 \<Rightarrow> cursor \<Rightarrow> cursor" where
  "put v c = ((fst c)[snd c := v], Suc (snd c))"

text \<open>
  \<open>memcpy(p, src, n)\<close> at the cursor, which it leaves where it was. The code copies the
  22 bytes of a 22-byte array, so \<open>take n src\<close> is all of \<open>src\<close>.
\<close>

definition memcpy :: "cursor \<Rightarrow> u8 list \<Rightarrow> nat \<Rightarrow> cursor" where
  "memcpy c src n = (fst (fold put (take n src) c), snd c)"

text \<open>
  \<open>build_manufacturer_data\<close>: 22 writes through \<open>p\<close>, starting at \<open>buffer\<close>. The
  parameters \<open>pressure\<close> and \<open>humidity\<close> are written \<open>press\<close> and \<open>hum\<close>, the names of the
  record fields being taken.
\<close>

definition build_manufacturer_data ::
  "u8 list \<Rightarrow> u32 \<Rightarrow> u32 \<Rightarrow> float32 \<Rightarrow> float32 \<Rightarrow> float32 \<Rightarrow> u8 list" where
  "build_manufacturer_data buffer dev_id read_id temp press hum =
    (let p = (buffer, 0);
         p = put BLE_MAGIC_0 p;
         p = put BLE_MAGIC_1 p;
         p = put (ucast (dev_id AND 0xFF)) p;
         p = put (ucast (drop_bit 8 dev_id AND 0xFF)) p;
         p = put (ucast (drop_bit 16 dev_id AND 0xFF)) p;
         p = put (ucast (drop_bit 24 dev_id AND 0xFF)) p;
         p = put (ucast (read_id AND 0xFF)) p;
         p = put (ucast (drop_bit 8 read_id AND 0xFF)) p;
         p = put (ucast (drop_bit 16 read_id AND 0xFF)) p;
         p = put (ucast (drop_bit 24 read_id AND 0xFF)) p;
         temp_bits = float_bits temp;
         p = put (ucast (temp_bits AND 0xFF)) p;
         p = put (ucast (drop_bit 8 temp_bits AND 0xFF)) p;
         p = put (ucast (drop_bit 16 temp_bits AND 0xFF)) p;
         p = put (ucast (drop_bit 24 temp_bits AND 0xFF)) p;
         press_bits = float_bits press;
         p = put (ucast (press_bits AND 0xFF)) p;
         p = put (ucast (drop_bit 8 press_bits AND 0xFF)) p;
         p = put (ucast (drop_bit 16 press_bits AND 0xFF)) p;
         p = put (ucast (drop_bit 24 press_bits AND 0xFF)) p;
         hum_bits = float_bits hum;
         p = put (ucast (hum_bits AND 0xFF)) p;
         p = put (ucast (drop_bit 8 hum_bits AND 0xFF)) p;
         p = put (ucast (drop_bit 16 hum_bits AND 0xFF)) p;
         p = put (ucast (drop_bit 24 hum_bits AND 0xFF)) p
     in fst p)"

text \<open>
  The end of \<open>build_adv_data\<close>: the distance \<open>p - adv_data\<close> is stored in the
  \<open>uint8_t adv_data_len\<close>, and a length above 31 is printed and replaced by 31.
\<close>

definition store_adv_data_len :: "nat \<Rightarrow> ble \<Rightarrow> ble" where
  "store_adv_data_len n s =
    (let s = s\<lparr>adv_data_len := of_nat n\<rparr>
     in if adv_data_len s > 31
        then s\<lparr>console := console s @ [Log_adv_data_too_long (adv_data_len s)],
               adv_data_len := 31\<rparr>
        else s)"

text \<open>
  \<open>build_adv_data\<close>. The local \<open>mfg_data[22]\<close> is uninitialised in C; all of its 22
  bytes are written by \<open>build_manufacturer_data\<close> before they are read.
\<close>

definition build_adv_data ::
  "btstack \<Rightarrow> u32 \<Rightarrow> u32 \<Rightarrow> float32 \<Rightarrow> float32 \<Rightarrow> float32 \<Rightarrow> ble \<Rightarrow> ble" where
  "build_adv_data bt dev_id read_id temp press hum s =
    (let p = (adv_data s, 0);
         p = put 0x02 p;
         p = put (BLUETOOTH_DATA_TYPE_FLAGS bt) p;
         p = put 0x06 p;
         mfg_data = build_manufacturer_data (replicate 22 0) dev_id read_id temp press hum;
         p = put 25 p;
         p = put (BLUETOOTH_DATA_TYPE_MANUFACTURER_SPECIFIC_DATA bt) p;
         p = put (ucast (BLE_COMPANY_ID AND 0xFF)) p;
         p = put (ucast (drop_bit 8 BLE_COMPANY_ID AND 0xFF)) p;
         p = memcpy p mfg_data 22;
         p = (fst p, snd p + 22)
     in store_adv_data_len (snd p) (s\<lparr>adv_data := fst p\<rparr>))"

section \<open>The advertisement lifecycle\<close>

text \<open>A call into the radio stack or the platform, and a \<open>printf\<close>.\<close>

definition call :: "radio_call \<Rightarrow> ble \<Rightarrow> ble" where
  "call c s = s\<lparr>radio := radio s @ [c]\<rparr>"

definition printf :: "log_line \<Rightarrow> ble \<Rightarrow> ble" where
  "printf l s = s\<lparr>console := console s @ [l]\<rparr>"

text \<open>
  \<open>packet_handler\<close>, the callback the stack runs for each event; \<open>channel\<close> and
  \<open>size\<close> (here \<open>psize\<close>) are unused. The first payload is built from \<open>0.0f\<close>, whose
  bit pattern is zero.
\<close>

definition packet_handler :: "btstack \<Rightarrow> u8 \<Rightarrow> u16 \<Rightarrow> u8 list \<Rightarrow> u16 \<Rightarrow> ble \<Rightarrow> ble" where
  "packet_handler bt packet_type channel packet psize s =
    (if packet_type \<noteq> HCI_EVENT_PACKET bt then s
     else
       let event_type = hci_event_packet_get_type bt packet
       in if event_type = BTSTACK_EVENT_STATE bt
          then
            if btstack_event_state_get_state bt packet \<noteq> HCI_STATE_WORKING bt then s
            else
              let local_addr = gap_local_bd_addr bt;
                  s = printf (Log_up_and_running local_addr) s;
                  null_addr = replicate 6 0;
                  s = call (Gap_advertisements_set_params ADV_INTERVAL_MIN_MS
                        ADV_INTERVAL_MAX_MS ADV_TYPE 0 null_addr 0x07 0x00) s;
                  s = build_adv_data bt (device_id s) (reading_id s)
                        (Float32 0) (Float32 0) (Float32 0) s;
                  s = call (Gap_advertisements_set_data (adv_data_len s) (adv_data s)) s;
                  s = call (Gap_advertisements_enable 1) s;
                  s = printf (Log_advertising_enabled (device_id s)) s
              in s\<lparr>ble_initialized := True\<rparr>
          else s)"

text \<open>
  \<open>ble_advertise_init\<close>. \<open>cyw43_result\<close> is what \<open>cyw43_arch_init()\<close> returns, an input
  from the platform. The results of the other calls are discarded by the code. The
  function returns its \<open>int\<close> and the new state.
\<close>

definition ble_advertise_init :: "u32 \<Rightarrow> int \<Rightarrow> ble \<Rightarrow> int \<times> ble" where
  "ble_advertise_init dev_id cyw43_result s =
    (if ble_initialized s then (0, printf Log_already_initialized s)
     else
       let s = s\<lparr>device_id := dev_id\<rparr>;
           s = s\<lparr>reading_id := 0\<rparr>;
           s = call Cyw43_arch_init s;
           init_result = cyw43_result;
           s = (if init_result \<noteq> 0
                then printf (Log_cyw43_arch_init_returned init_result) s else s);
           s = call L2cap_init s;
           s = call Sm_init s;
           s = call Hci_add_event_handler s;
           s = call (Hci_power_control HCI_POWER_ON) s;
           s = printf (Log_initialization_started (device_id s)) s;
           s = printf Log_waiting_for_btstack s
       in (0, s))"

text \<open>\<open>ble_advertise_update\<close>. The argument is a pointer: \<open>None\<close> is \<open>NULL\<close>.\<close>

definition ble_advertise_update :: "btstack \<Rightarrow> sensor_data_t option \<Rightarrow> ble \<Rightarrow> int \<times> ble" where
  "ble_advertise_update bt data s =
    (if \<not> ble_initialized s then (- 1, s)
     else
       case data of
         None \<Rightarrow> (- 1, s)
       | Some d \<Rightarrow>
           let s = s\<lparr>reading_id := reading_id s + 1\<rparr>;
               s = build_adv_data bt (device_id s) (reading_id s)
                     (temperature d) (pressure d) (humidity d) s;
               s = call (Gap_advertisements_set_data (adv_data_len s) (adv_data s)) s;
               s = printf (Log_updated_advertisement (reading_id s)
                     (temperature d) (pressure d) (humidity d)) s
           in (0, s))"

text \<open>\<open>ble_advertise_deinit\<close> and \<open>ble_advertise_is_ready\<close>.\<close>

definition ble_advertise_deinit :: "ble \<Rightarrow> ble" where
  "ble_advertise_deinit s =
    (if \<not> ble_initialized s then s
     else
       let s = call (Gap_advertisements_enable 0) s;
           s = call (Hci_power_control HCI_POWER_OFF) s;
           s = call Cyw43_arch_deinit s;
           s = s\<lparr>ble_initialized := False\<rparr>
       in printf Log_deinitialized s)"

definition ble_advertise_is_ready :: "ble \<Rightarrow> bool" where
  "ble_advertise_is_ready s = ble_initialized s"

section \<open>The layout in the words of the specification\<close>

text \<open>
  The specification's wire format, independent of the code's shifts and masks: a 32-bit
  field is four bytes, the base-256 digits of its value, least significant first.
\<close>

definition spec_le_u32 :: "u32 \<Rightarrow> u8 list" where
  "spec_le_u32 w =
    [of_nat (unat w mod 256), of_nat (unat w div 256 mod 256),
     of_nat (unat w div 65536 mod 256), of_nat (unat w div 16777216 mod 256)]"

definition spec_payload :: "u32 \<Rightarrow> u32 \<Rightarrow> float32 \<Rightarrow> float32 \<Rightarrow> float32 \<Rightarrow> u8 list" where
  "spec_payload dev_id read_id temp press hum =
    [BLE_MAGIC_0, BLE_MAGIC_1] @ spec_le_u32 dev_id @ spec_le_u32 read_id @
    spec_le_u32 (float_bits temp) @ spec_le_u32 (float_bits press) @
    spec_le_u32 (float_bits hum)"

text \<open>
  The inverse of that layout, as a receiver applies it: the value of the four bytes at a
  fixed offset, and the record of the five fields of a 22-byte payload that starts with
  the magic bytes. The receiver is not part of the sources; this is the specification's
  decoder, against which the encoder is checked.
\<close>

definition spec_read_le_u32 :: "u8 list \<Rightarrow> nat \<Rightarrow> u32" where
  "spec_read_le_u32 bs i =
    of_nat (unat (bs ! i) + 256 * unat (bs ! (i + 1)) + 65536 * unat (bs ! (i + 2)) +
      16777216 * unat (bs ! (i + 3)))"

definition spec_decode :: "u8 list \<Rightarrow> (u32 \<times> u32 \<times> sensor_data_t) option" where
  "spec_decode bs =
    (if length bs = 22 \<and> bs ! 0 = BLE_MAGIC_0 \<and> bs ! 1 = BLE_MAGIC_1
     then Some (spec_read_le_u32 bs 2, spec_read_le_u32 bs 6,
       \<lparr>temperature = Float32 (spec_read_le_u32 bs 10),
        pressure = Float32 (spec_read_le_u32 bs 14),
        humidity = Float32 (spec_read_le_u32 bs 18)\<rparr>)
     else None)"

section \<open>A concrete run\<close>

text \<open>
  An instance of the stack's parameters, with the values of the Bluetooth assigned numbers
  and of the stack's event format, used to run the model on concrete inputs; and the
  states of the scenario \<open>start(0xDEADBEEF)\<close>, radio ready, \<open>update\<close>.
\<close>

definition bt0 :: btstack where
  "bt0 = \<lparr>BLUETOOTH_DATA_TYPE_FLAGS = 0x01,
     BLUETOOTH_DATA_TYPE_MANUFACTURER_SPECIFIC_DATA = 0xFF,
     HCI_EVENT_PACKET = 0x04, BTSTACK_EVENT_STATE = 0x60, HCI_STATE_WORKING = 2,
     hci_event_packet_get_type = (\<lambda>packet. packet ! 0),
     btstack_event_state_get_state = (\<lambda>packet. packet ! 2),
     gap_local_bd_addr = [0x28, 0xCD, 0xC1, 0x00, 0x00, 0x01]\<rparr>"

definition reading0 :: sensor_data_t where
  "reading0 = \<lparr>temperature = Float32 0x41AC0000, pressure = Float32 0x42CA999A,
     humidity = Float32 0x42340000\<rparr>"

definition ble_starting :: ble where
  "ble_starting = snd (ble_advertise_init 0xDEADBEEF 0 ble_boot)"

definition ble_active :: ble where
  "ble_active = packet_handler bt0 0x04 0 [0x60, 0x01, 0x02] 3 ble_starting"

definition ble_updated :: ble where
  "ble_updated = snd (ble_advertise_update bt0 (Some reading0) ble_active)"

section \<open>Properties of the encoder\<close>

subsection \<open>Writes through the cursor\<close>

lemma fold_put:
  "p + length vs \<le> length buf \<Longrightarrow>
   fold put vs (buf, p) = (take p buf @ vs @ drop (p + length vs) buf, p + length vs)"
proof (induction vs arbitrary: buf p)
  case Nil
  then show ?case by simp
next
  case (Cons v vs)
  have "p < length buf" using Cons.prems by simp
  have "fold put (v # vs) (buf, p) = fold put vs (buf[p := v], Suc p)"
    by (simp add: put_def)
  also have "\<dots> = (take (Suc p) (buf[p := v]) @ vs @ drop (Suc p + length vs) (buf[p := v]),
      Suc p + length vs)"
    using Cons.prems by (intro Cons.IH) simp
  also have "take (Suc p) (buf[p := v]) = take p buf @ [v]"
    using \<open>p < length buf\<close> by (simp add: take_Suc_conv_app_nth)
  also have "drop (Suc p + length vs) (buf[p := v]) = drop (Suc p + length vs) buf"
    by simp
  finally show ?case by simp
qed

subsection \<open>Bytes of a 32-bit value\<close>

lemma mask_ff: "(0xFF :: u32) = mask 8"
  by (simp add: mask_eq_exp_minus_1)

lemma low_byte: "(ucast ((x :: u32) AND 0xFF) :: u8) = of_nat (unat x mod 256)"
proof -
  have "(ucast (x AND 0xFF) :: u8) = ucast x"
    by (rule bit_word_eqI) (auto simp: bit_simps mask_ff)
  also have "\<dots> = of_nat (unat x)"
    by simp
  also have "\<dots> = of_nat (unat x mod 256)"
    unfolding word_of_nat_eq_iff by (simp add: take_bit_eq_mod)
  finally show ?thesis .
qed

lemma shifted_byte:
  "(ucast (drop_bit n (w :: u32) AND 0xFF) :: u8) = of_nat (unat w div 2 ^ n mod 256)"
  by (simp only: low_byte unat_drop_bit_eq drop_bit_eq_div [where ?'a = nat])

lemma le_bytes:
  "[ucast (w AND 0xFF), ucast (drop_bit 8 w AND 0xFF), ucast (drop_bit 16 w AND 0xFF),
    ucast (drop_bit 24 w AND 0xFF)] = spec_le_u32 w"
  using shifted_byte [of 8 w] shifted_byte [of 16 w] shifted_byte [of 24 w]
  by (simp add: spec_le_u32_def low_byte)

lemma length_spec_le_u32: "length (spec_le_u32 w) = 4"
  by (simp add: spec_le_u32_def)

lemma length_spec_payload: "length (spec_payload d r t p h) = 22"
  by (simp add: spec_payload_def length_spec_le_u32)

subsection \<open>The manufacturer payload\<close>

lemma build_manufacturer_data_fold:
  "build_manufacturer_data buffer d r t p h = fst (fold put (spec_payload d r t p h) (buffer, 0))"
  by (simp add: build_manufacturer_data_def Let_def spec_payload_def
      le_bytes [symmetric])

lemma build_manufacturer_data_eq:
  assumes "length buffer = 22"
  shows "build_manufacturer_data buffer d r t p h = spec_payload d r t p h"
  using assms by (simp add: build_manufacturer_data_fold fold_put length_spec_payload)


subsection \<open>The wrapped structure\<close>

lemma snd_put: "snd (put v c) = Suc (snd c)"
  by (simp add: put_def)

lemma company_id_bytes:
  "ucast (BLE_COMPANY_ID AND 0xFF) = (0xFF :: u8)"
  "ucast (drop_bit 8 BLE_COMPANY_ID AND 0xFF) = (0xFF :: u8)"
  by (simp_all add: BLE_COMPANY_ID_def)

lemma store_adv_data_len_29: "store_adv_data_len 29 s = s\<lparr>adv_data_len := 29\<rparr>"
  by (simp add: store_adv_data_len_def)

lemma build_adv_data_fold:
  "build_adv_data bt d r t p h s =
    s\<lparr>adv_data := fst (fold put (take 22 (build_manufacturer_data (replicate 22 0) d r t p h))
        (fold put [0x02, BLUETOOTH_DATA_TYPE_FLAGS bt, 0x06, 25,
           BLUETOOTH_DATA_TYPE_MANUFACTURER_SPECIFIC_DATA bt, 0xFF, 0xFF] (adv_data s, 0))),
      adv_data_len := 29\<rparr>"
  by (simp add: build_adv_data_def Let_def memcpy_def snd_put company_id_bytes
      store_adv_data_len_29)

lemma adv_data_len_build_adv_data: "adv_data_len (build_adv_data bt d r t p h s) = 29"
  by (simp add: build_adv_data_fold)

lemma build_adv_data_eq:
  assumes "length (adv_data s) = 31"
  shows "build_adv_data bt d r t p h s =
    s\<lparr>adv_data := [0x02, BLUETOOTH_DATA_TYPE_FLAGS bt, 0x06, 25,
          BLUETOOTH_DATA_TYPE_MANUFACTURER_SPECIFIC_DATA bt, 0xFF, 0xFF] @
          spec_payload d r t p h @ drop 29 (adv_data s),
      adv_data_len := 29\<rparr>"
proof -
  let ?hdr = "[0x02, BLUETOOTH_DATA_TYPE_FLAGS bt, 0x06, 25,
    BLUETOOTH_DATA_TYPE_MANUFACTURER_SPECIFIC_DATA bt, 0xFF, 0xFF]"
  have mfg: "take 22 (build_manufacturer_data (replicate 22 0) d r t p h) = spec_payload d r t p h"
    by (simp add: build_manufacturer_data_eq length_spec_payload)
  have len: "length ?hdr = 7"
    by simp
  have "0 + length ?hdr \<le> length (adv_data s)"
    using assms by simp
  from fold_put [OF this]
  have hdr: "fold put ?hdr (adv_data s, 0) = (?hdr @ drop 7 (adv_data s), 7)"
    unfolding len by (simp del: fold_simps)
  have "7 + length (spec_payload d r t p h) \<le> length (?hdr @ drop 7 (adv_data s))"
    using assms by (simp add: length_spec_payload)
  from fold_put [OF this]
  have "fst (fold put (spec_payload d r t p h) (?hdr @ drop 7 (adv_data s), 7)) =
      ?hdr @ spec_payload d r t p h @ drop 29 (adv_data s)"
    unfolding length_spec_payload by (simp del: fold_simps)
  then show ?thesis
    by (simp only: build_adv_data_fold mfg hdr)
qed


subsection \<open>Reading the fields back\<close>

lemma base256_digits:
  fixes n :: nat
  shows "n mod 256 + 256 * (n div 256 mod 256) + 65536 * (n div 65536 mod 256) +
    16777216 * (n div 16777216 mod 256) = n mod 4294967296"
proof -
  have a: "n div 65536 = n div 256 div 256"
    by (simp add: div_mult2_eq)
  have b: "n div 16777216 = n div 256 div 256 div 256"
    by (simp add: div_mult2_eq)
  have c: "n mod 4294967296 = n mod 256 + 256 * (n div 256 mod 16777216)"
    using mod_mult2_eq [of n 256 16777216] by simp
  have d: "n div 256 mod 16777216 = n div 256 mod 256 + 256 * (n div 256 div 256 mod 65536)"
    using mod_mult2_eq [of "n div 256" 256 65536] by simp
  have e: "n div 256 div 256 mod 65536 =
      n div 256 div 256 mod 256 + 256 * (n div 256 div 256 div 256 mod 256)"
    using mod_mult2_eq [of "n div 256 div 256" 256 256] by simp
  show ?thesis unfolding a b c d e by simp
qed

lemma unat_spec_le_u32:
  "unat (spec_le_u32 w ! 0) = unat w mod 256"
  "unat (spec_le_u32 w ! 1) = unat w div 256 mod 256"
  "unat (spec_le_u32 w ! 2) = unat w div 65536 mod 256"
  "unat (spec_le_u32 w ! 3) = unat w div 16777216 mod 256"
  by (simp_all add: spec_le_u32_def unat_of_nat)

lemma spec_read_le_u32_at:
  assumes "i = length pre"
  shows "spec_read_le_u32 (pre @ spec_le_u32 w @ post) i = w"
proof -
  have nth: "(pre @ spec_le_u32 w @ post) ! (i + k) = spec_le_u32 w ! k" if "k < 4" for k
    using that assms by (simp add: nth_append length_spec_le_u32)
  have "spec_read_le_u32 (pre @ spec_le_u32 w @ post) i =
      of_nat (unat (spec_le_u32 w ! 0) + 256 * unat (spec_le_u32 w ! 1) +
        65536 * unat (spec_le_u32 w ! 2) + 16777216 * unat (spec_le_u32 w ! 3))"
    using nth [of 0] nth [of 1] nth [of 2] nth [of 3]
    by (simp add: spec_read_le_u32_def)
  also have "\<dots> = of_nat (unat w mod 4294967296)"
    by (simp only: unat_spec_le_u32 base256_digits)
  also have "\<dots> = w"
  proof -
    have "unat w < 4294967296"
      using unsigned_less [of w, where ?'a = nat] by simp
    then have "unat w mod 4294967296 = unat w"
      by (rule mod_less)
    then show ?thesis by simp
  qed
  finally show ?thesis .
qed

lemma spec_decode_spec_payload:
  "spec_decode (spec_payload d r t p h) =
    Some (d, r, \<lparr>temperature = t, pressure = p, humidity = h\<rparr>)"
proof -
  let ?m = "[BLE_MAGIC_0, BLE_MAGIC_1]"
  have f1: "spec_read_le_u32 (spec_payload d r t p h) 2 = d"
    using spec_read_le_u32_at [of 2 ?m d]
    by (simp add: spec_payload_def)
  have f2: "spec_read_le_u32 (spec_payload d r t p h) 6 = r"
    using spec_read_le_u32_at [of 6 "?m @ spec_le_u32 d" r]
    by (simp add: spec_payload_def length_spec_le_u32)
  have f3: "spec_read_le_u32 (spec_payload d r t p h) 10 = float_bits t"
    using spec_read_le_u32_at [of 10 "?m @ spec_le_u32 d @ spec_le_u32 r" "float_bits t"]
    by (simp add: spec_payload_def length_spec_le_u32)
  have f4: "spec_read_le_u32 (spec_payload d r t p h) 14 = float_bits p"
    using spec_read_le_u32_at [of 14
        "?m @ spec_le_u32 d @ spec_le_u32 r @ spec_le_u32 (float_bits t)" "float_bits p"]
    by (simp add: spec_payload_def length_spec_le_u32)
  have f5: "spec_read_le_u32 (spec_payload d r t p h) 18 = float_bits h"
    using spec_read_le_u32_at [of 18
        "?m @ spec_le_u32 d @ spec_le_u32 r @ spec_le_u32 (float_bits t) @
         spec_le_u32 (float_bits p)" "float_bits h" "[]"]
    by (simp add: spec_payload_def length_spec_le_u32)
  have magic: "spec_payload d r t p h ! 0 = BLE_MAGIC_0"
    "spec_payload d r t p h ! Suc 0 = BLE_MAGIC_1"
    unfolding spec_payload_def by simp_all
  show ?thesis
    by (simp add: spec_decode_def length_spec_payload magic f1 f2 f3 f4 f5)
qed

text \<open>
  Claim C1. For every device identifier, sequence number and reading, the encoder fills a
  22-byte buffer with exactly the two magic bytes, then \<open>device_id\<close>, \<open>reading_id\<close> and the
  bit patterns of temperature, pressure and humidity, each as four little-endian bytes,
  in that order. The buffer is the caller's 22-byte array, whatever it held before.
\<close>

theorem manufacturer_payload_layout:
  assumes "length buffer = 22"
  shows "build_manufacturer_data buffer dev_id read_id temp press hum =
      [BLE_MAGIC_0, BLE_MAGIC_1] @ spec_le_u32 dev_id @ spec_le_u32 read_id @
      spec_le_u32 (float_bits temp) @ spec_le_u32 (float_bits press) @
      spec_le_u32 (float_bits hum)
    \<and> length (build_manufacturer_data buffer dev_id read_id temp press hum) = 22"
  using assms
  by (simp add: build_manufacturer_data_eq length_spec_payload)
    (simp add: spec_payload_def)

theorem manufacturer_payload_layout_witness:
  "length (replicate 22 (0 :: u8)) = 22 \<and>
   build_manufacturer_data (replicate 22 0) 0xDEADBEEF 1
     (Float32 0x41AC0000) (Float32 0x42CA999A) (Float32 0x42340000) =
   [0x01, 0xD0, 0xEF, 0xBE, 0xAD, 0xDE, 0x01, 0x00, 0x00, 0x00, 0x00, 0x00, 0xAC, 0x41,
    0x9A, 0x99, 0xCA, 0x42, 0x00, 0x00, 0x34, 0x42]"
  using manufacturer_payload_layout [of "replicate 22 0" "0xDEADBEEF" 1
      "Float32 0x41AC0000" "Float32 0x42CA999A" "Float32 0x42340000"]
  by (simp add: spec_le_u32_def BLE_MAGIC_0_def BLE_MAGIC_1_def)

text \<open>
  Claim C8. Decoding the encoder's 22-byte payload with the inverse of the layout gives
  back the device identifier, the sequence number and the three measurements, bit for
  bit.
\<close>

theorem payload_round_trip:
  assumes "length buffer = 22"
  shows "spec_decode (build_manufacturer_data buffer dev_id read_id temp press hum) =
    Some (dev_id, read_id, \<lparr>temperature = temp, pressure = press, humidity = hum\<rparr>)"
  using assms by (simp add: build_manufacturer_data_eq spec_decode_spec_payload)

theorem payload_round_trip_witness:
  "length (replicate 22 (0 :: u8)) = 22 \<and>
   spec_decode (build_manufacturer_data (replicate 22 0) 0xDEADBEEF 1
     (Float32 0x7FC00000) (Float32 0xFF800000) (Float32 0x00000001)) =
   Some (0xDEADBEEF, 1, \<lparr>temperature = Float32 0x7FC00000, pressure = Float32 0xFF800000,
     humidity = Float32 0x00000001\<rparr>)"
  using payload_round_trip [of "replicate 22 0" "0xDEADBEEF" 1
      "Float32 0x7FC00000" "Float32 0xFF800000" "Float32 0x00000001"]
  by simp

section \<open>Properties of the wrapped structure\<close>

text \<open>
  Claim C2, as stated, fails on the length: for the reading 21.5, 101.3, 45.0 of device
  \<open>0xDEADBEEF\<close> the encoder reports 29 bytes, not 30. The manufacturer element is 26 bytes
  long (its length byte, whose value 25 does not count itself, and the 25 bytes after it),
  so the structure is 3 + 26 bytes.
\<close>

theorem adv_structure_length_counterexample:
  "unat (adv_data_len (build_adv_data bt0 0xDEADBEEF 1 (Float32 0x41AC0000)
     (Float32 0x42CA999A) (Float32 0x42340000) ble_boot)) = 29 \<and>
   adv_data_len (build_adv_data bt0 0xDEADBEEF 1 (Float32 0x41AC0000)
     (Float32 0x42CA999A) (Float32 0x42340000) ble_boot) \<noteq> 30"
  by (simp add: adv_data_len_build_adv_data)

text \<open>
  Claim C2, amended. For every input and every 31-byte buffer, the structure the encoder
  writes is the 3-byte flags element (length byte 2, the flags type tag, value \<open>0x06\<close>),
  then the manufacturer-data element: length byte 25, its type tag, the company identifier
  as two little-endian bytes and the 22-byte payload. The length reported is 29, and the
  last two bytes of the buffer are left as they were.
\<close>

theorem adv_structure_layout:
  assumes "length (adv_data s) = 31"
  shows "take 29 (adv_data (build_adv_data bt dev_id read_id temp press hum s)) =
      [0x02, BLUETOOTH_DATA_TYPE_FLAGS bt, 0x06] @
      [25, BLUETOOTH_DATA_TYPE_MANUFACTURER_SPECIFIC_DATA bt,
       of_nat (unat BLE_COMPANY_ID mod 256), of_nat (unat BLE_COMPANY_ID div 256 mod 256)] @
      build_manufacturer_data (replicate 22 0) dev_id read_id temp press hum
    \<and> length (build_manufacturer_data (replicate 22 0) dev_id read_id temp press hum) = 22
    \<and> adv_data_len (build_adv_data bt dev_id read_id temp press hum s) = 29
    \<and> drop 29 (adv_data (build_adv_data bt dev_id read_id temp press hum s)) =
      drop 29 (adv_data s)
    \<and> length (adv_data (build_adv_data bt dev_id read_id temp press hum s)) = 31"
proof -
  have cid: "of_nat (unat BLE_COMPANY_ID mod 256) = (0xFF :: u8)"
    "of_nat (unat BLE_COMPANY_ID div 256 mod 256) = (0xFF :: u8)"
    by (simp_all add: BLE_COMPANY_ID_def)
  have mfg: "build_manufacturer_data (replicate 22 0) dev_id read_id temp press hum =
      spec_payload dev_id read_id temp press hum"
    by (simp add: build_manufacturer_data_eq)
  show ?thesis
    using assms
    by (simp add: build_adv_data_eq [OF assms] cid mfg length_spec_payload)
qed

theorem adv_structure_layout_witness:
  "length (adv_data ble_boot) = 31 \<and>
   take 29 (adv_data (build_adv_data bt0 0xDEADBEEF 1 (Float32 0x41AC0000)
     (Float32 0x42CA999A) (Float32 0x42340000) ble_boot)) =
   [0x02, 0x01, 0x06, 25, 0xFF, 0xFF, 0xFF,
    0x01, 0xD0, 0xEF, 0xBE, 0xAD, 0xDE, 0x01, 0x00, 0x00, 0x00, 0x00, 0x00, 0xAC, 0x41,
    0x9A, 0x99, 0xCA, 0x42, 0x00, 0x00, 0x34, 0x42] \<and>
   adv_data_len (build_adv_data bt0 0xDEADBEEF 1 (Float32 0x41AC0000)
     (Float32 0x42CA999A) (Float32 0x42340000) ble_boot) = 29"
proof -
  have len: "length (adv_data ble_boot) = 31"
    by (simp add: ble_boot_def)
  have mfg: "build_manufacturer_data (replicate 22 0) 0xDEADBEEF 1 (Float32 0x41AC0000)
      (Float32 0x42CA999A) (Float32 0x42340000) =
    [0x01, 0xD0, 0xEF, 0xBE, 0xAD, 0xDE, 0x01, 0x00, 0x00, 0x00, 0x00, 0x00, 0xAC, 0x41,
     0x9A, 0x99, 0xCA, 0x42, 0x00, 0x00, 0x34, 0x42]"
    by (simp add: build_manufacturer_data_eq spec_payload_def spec_le_u32_def
        BLE_MAGIC_0_def BLE_MAGIC_1_def)
  show ?thesis
    using adv_structure_layout [OF len, of bt0 "0xDEADBEEF" 1 "Float32 0x41AC0000"
        "Float32 0x42CA999A" "Float32 0x42340000"]
    by (simp add: len mfg bt0_def BLE_COMPANY_ID_def)
qed

text \<open>
  Claim C5. For every device identifier, sequence number and triple of floats (every bit
  pattern, so NaNs, infinities and subnormals too) and from every state, the length the
  encoder reports for the wrapped structure is at most 31.
\<close>

theorem adv_structure_within_budget:
  "unat (adv_data_len (build_adv_data bt dev_id read_id temp press hum s)) \<le> 31"
  by (simp add: adv_data_len_build_adv_data)

section \<open>Properties of the lifecycle\<close>

lemma build_adv_data_other_fields:
  "ble_initialized (build_adv_data bt d r t p h s) = ble_initialized s"
  "device_id (build_adv_data bt d r t p h s) = device_id s"
  "reading_id (build_adv_data bt d r t p h s) = reading_id s"
  "radio (build_adv_data bt d r t p h s) = radio s"
  "console (build_adv_data bt d r t p h s) = console s"
  by (simp_all add: build_adv_data_fold)

lemma build_adv_data_reading_id_update:
  "build_adv_data bt d r t p h (s\<lparr>reading_id := x\<rparr>) =
    (build_adv_data bt d r t p h s)\<lparr>reading_id := x\<rparr>"
  by (simp add: build_adv_data_fold)

lemma ble_advertise_update_active:
  assumes "ble_initialized s"
  shows "ble_advertise_update bt (Some d) s =
    (0, (build_adv_data bt (device_id s) (reading_id s + 1)
          (temperature d) (pressure d) (humidity d) s)
        \<lparr>reading_id := reading_id s + 1,
         radio := radio s @ [Gap_advertisements_set_data 29
           (adv_data (build_adv_data bt (device_id s) (reading_id s + 1)
             (temperature d) (pressure d) (humidity d) s))],
         console := console s @ [Log_updated_advertisement (reading_id s + 1)
           (temperature d) (pressure d) (humidity d)]\<rparr>)"
  using assms
  by (simp add: ble_advertise_update_def Let_def call_def printf_def
      build_adv_data_reading_id_update build_adv_data_other_fields
      adv_data_len_build_adv_data)

lemma ble_advertise_update_result:
  "fst (ble_advertise_update bt data s) = 0 \<longleftrightarrow> ble_initialized s \<and> data \<noteq> None"
  by (simp add: ble_advertise_update_def Let_def split: option.split)

lemma ble_advertise_init_inactive:
  assumes "\<not> ble_initialized s"
  shows "ble_advertise_init dev_id cyw43_result s =
    (0, s\<lparr>device_id := dev_id, reading_id := 0,
          radio := radio s @ [Cyw43_arch_init, L2cap_init, Sm_init, Hci_add_event_handler,
            Hci_power_control HCI_POWER_ON],
          console := console s @
            (if cyw43_result \<noteq> 0 then [Log_cyw43_arch_init_returned cyw43_result] else []) @
            [Log_initialization_started dev_id, Log_waiting_for_btstack]\<rparr>)"
  using assms by (simp add: ble_advertise_init_def Let_def call_def printf_def)

lemma ble_advertise_init_active:
  assumes "ble_initialized s"
  shows "ble_advertise_init dev_id cyw43_result s =
    (0, s\<lparr>console := console s @ [Log_already_initialized]\<rparr>)"
  using assms by (simp add: ble_advertise_init_def printf_def)

lemma ble_starting_eq:
  "ble_starting = ble_boot\<lparr>device_id := 0xDEADBEEF, reading_id := 0,
     radio := [Cyw43_arch_init, L2cap_init, Sm_init, Hci_add_event_handler,
       Hci_power_control HCI_POWER_ON],
     console := [Log_initialization_started 0xDEADBEEF, Log_waiting_for_btstack]\<rparr>"
  by (simp add: ble_starting_def ble_advertise_init_inactive ble_boot_def)

lemma ble_active_fields:
  "ble_initialized ble_active" "reading_id ble_active = 0" "device_id ble_active = 0xDEADBEEF"
  by (simp_all add: ble_active_def packet_handler_def bt0_def Let_def call_def printf_def
      build_adv_data_other_fields ble_starting_eq ble_boot_def)

lemma updates_reading_id:
  "ble_initialized s \<Longrightarrow>
   ble_initialized (foldl (\<lambda>s d. snd (ble_advertise_update bt (Some d) s)) s ds) \<and>
   reading_id (foldl (\<lambda>s d. snd (ble_advertise_update bt (Some d) s)) s ds) =
     reading_id s + of_nat (length ds)"
proof (induction ds arbitrary: s)
  case Nil
  then show ?case by simp
next
  case (Cons d ds)
  let ?s = "snd (ble_advertise_update bt (Some d) s)"
  have "ble_initialized ?s" and "reading_id ?s = reading_id s + 1"
    using Cons.prems by (simp_all add: ble_advertise_update_active build_adv_data_other_fields)
  with Cons.IH [of ?s] show ?case by simp
qed

text \<open>
  Claim C3. A \<open>start()\<close> that is not refused as already initialised sets \<open>reading_id\<close> to
  0. Every \<open>update()\<close> that returns 0 leaves \<open>reading_id\<close> one above its previous value,
  modulo \<open>2^32\<close>, and the advertisement data it installs is built from the incremented
  value. From an active state, any run of \<open>update()\<close> calls with readings adds the number
  of calls to \<open>reading_id\<close>.
\<close>

theorem reading_id_sequence:
  "(\<not> ble_initialized s \<longrightarrow> reading_id (snd (ble_advertise_init dev_id cyw43_result s)) = 0)
   \<and> (fst (ble_advertise_update bt data s) = 0 \<longrightarrow>
        reading_id (snd (ble_advertise_update bt data s)) = reading_id s + 1
        \<and> unat (reading_id (snd (ble_advertise_update bt data s))) =
            (unat (reading_id s) + 1) mod 2 ^ 32
        \<and> (\<forall>d. data = Some d \<longrightarrow>
              adv_data (snd (ble_advertise_update bt data s)) =
              adv_data (build_adv_data bt (device_id s) (reading_id s + 1)
                (temperature d) (pressure d) (humidity d) s)))
   \<and> (ble_initialized s \<longrightarrow>
        reading_id (foldl (\<lambda>s d. snd (ble_advertise_update bt (Some d) s)) s ds) =
          reading_id s + of_nat (length ds))"
proof (intro conjI impI)
  assume "\<not> ble_initialized s"
  then show "reading_id (snd (ble_advertise_init dev_id cyw43_result s)) = 0"
    by (simp add: ble_advertise_init_inactive)
next
  assume ok: "fst (ble_advertise_update bt data s) = 0"
  then obtain d where d: "data = Some d" and act: "ble_initialized s"
    by (auto simp: ble_advertise_update_result)
  show inc: "reading_id (snd (ble_advertise_update bt data s)) = reading_id s + 1"
    by (simp add: d ble_advertise_update_active [OF act])
  show "unat (reading_id (snd (ble_advertise_update bt data s))) =
      (unat (reading_id s) + 1) mod 2 ^ 32"
    unfolding inc by (simp add: unat_word_ariths)
  show "\<forall>d. data = Some d \<longrightarrow>
      adv_data (snd (ble_advertise_update bt data s)) =
      adv_data (build_adv_data bt (device_id s) (reading_id s + 1)
        (temperature d) (pressure d) (humidity d) s)"
    by (simp add: ble_advertise_update_active [OF act])
next
  assume "ble_initialized s"
  then show "reading_id (foldl (\<lambda>s d. snd (ble_advertise_update bt (Some d) s)) s ds) =
      reading_id s + of_nat (length ds)"
    by (simp add: updates_reading_id)
qed

theorem reading_id_sequence_witness:
  "\<not> ble_initialized ble_boot
   \<and> reading_id (snd (ble_advertise_init 0xDEADBEEF 0 ble_boot)) = 0
   \<and> fst (ble_advertise_update bt0 (Some reading0) ble_active) = 0
   \<and> reading_id (snd (ble_advertise_update bt0 (Some reading0) ble_active)) = 1
   \<and> fst (ble_advertise_update bt0 (Some reading0) (ble_active\<lparr>reading_id := 0xFFFFFFFF\<rparr>)) = 0
   \<and> reading_id (snd (ble_advertise_update bt0 (Some reading0)
        (ble_active\<lparr>reading_id := 0xFFFFFFFF\<rparr>))) = 0
   \<and> ble_initialized ble_active
   \<and> reading_id (foldl (\<lambda>s d. snd (ble_advertise_update bt0 (Some d) s)) ble_active
        [reading0, reading0]) = 2"
proof -
  have boot: "\<not> ble_initialized ble_boot"
    by (simp add: ble_boot_def)
  have ok: "fst (ble_advertise_update bt0 (Some reading0) ble_active) = 0"
    "fst (ble_advertise_update bt0 (Some reading0) (ble_active\<lparr>reading_id := 0xFFFFFFFF\<rparr>)) = 0"
    by (simp_all add: ble_advertise_update_result ble_active_fields)
  show ?thesis
    using boot ok ble_active_fields
      reading_id_sequence [of ble_boot "0xDEADBEEF" 0 bt0 None "[]"]
      reading_id_sequence [of ble_active 0 0 bt0 "Some reading0" "[reading0, reading0]"]
      reading_id_sequence [of "ble_active\<lparr>reading_id := 0xFFFFFFFF\<rparr>" 0 0 bt0
        "Some reading0" "[]"]
    by simp
qed

text \<open>
  Claim C4. When the controller is not active, or the reading is \<open>NULL\<close>, \<open>update()\<close>
  returns \<open>-1\<close> and leaves the whole state as it was: the counter, the buffer, the trace
  of radio calls and the console.
\<close>

theorem update_rejected_without_effect:
  assumes "\<not> ble_initialized s \<or> data = None"
  shows "ble_advertise_update bt data s = (- 1, s)"
  using assms by (auto simp: ble_advertise_update_def)

theorem update_rejected_without_effect_witness:
  "\<not> ble_initialized ble_boot
   \<and> ble_advertise_update bt0 (Some reading0) ble_boot = (- 1, ble_boot)
   \<and> ble_initialized ble_active
   \<and> ble_advertise_update bt0 None ble_active = (- 1, ble_active)"
proof -
  have boot: "\<not> ble_initialized ble_boot"
    by (simp add: ble_boot_def)
  show ?thesis
    using boot ble_active_fields update_rejected_without_effect [of ble_boot "Some reading0" bt0]
      update_rejected_without_effect [of ble_active None bt0]
    by simp
qed

text \<open>
  Claim C6, as stated, fails in the Starting state. After \<open>start(0xDEADBEEF)\<close> and before
  the radio-ready event, \<open>ble_initialized\<close> is still false; a second \<open>start(2)\<close> then
  overwrites the device identity, does not print "already initialized", and repeats the
  five initialisation calls.
\<close>

theorem start_while_starting_counterexample:
  "\<not> ble_initialized ble_starting
   \<and> device_id ble_starting = 0xDEADBEEF
   \<and> device_id (snd (ble_advertise_init 2 0 ble_starting)) = 2
   \<and> Log_already_initialized \<notin> set (console (snd (ble_advertise_init 2 0 ble_starting)))
   \<and> radio (snd (ble_advertise_init 2 0 ble_starting)) =
       radio ble_starting @ [Cyw43_arch_init, L2cap_init, Sm_init, Hci_add_event_handler,
         Hci_power_control HCI_POWER_ON]"
proof -
  have st: "\<not> ble_initialized ble_starting"
    by (simp add: ble_starting_eq ble_boot_def)
  show ?thesis
    by (simp add: st ble_advertise_init_inactive [OF st]) (simp add: ble_starting_eq ble_boot_def)
qed

text \<open>
  Claim C6, amended. \<open>start()\<close> in the Active state returns 0, prints "already
  initialized" and changes nothing else: not the counter, not the device identity, and no
  radio call is made. In every other state, Starting included, \<open>start()\<close> records the
  new device identity, sets the counter to 0 and makes the initialisation calls.
\<close>

theorem start_guarded_only_when_active:
  "(ble_initialized s \<longrightarrow>
      ble_advertise_init dev_id cyw43_result s =
        (0, s\<lparr>console := console s @ [Log_already_initialized]\<rparr>))
   \<and> (\<not> ble_initialized s \<longrightarrow>
      device_id (snd (ble_advertise_init dev_id cyw43_result s)) = dev_id
      \<and> reading_id (snd (ble_advertise_init dev_id cyw43_result s)) = 0
      \<and> radio (snd (ble_advertise_init dev_id cyw43_result s)) =
          radio s @ [Cyw43_arch_init, L2cap_init, Sm_init, Hci_add_event_handler,
            Hci_power_control HCI_POWER_ON])"
  by (simp add: ble_advertise_init_active ble_advertise_init_inactive)

theorem start_guarded_only_when_active_witness:
  "ble_initialized ble_updated
   \<and> ble_advertise_init 2 0 ble_updated =
       (0, ble_updated\<lparr>console := console ble_updated @ [Log_already_initialized]\<rparr>)
   \<and> reading_id (snd (ble_advertise_init 2 0 ble_updated)) = 1
   \<and> device_id (snd (ble_advertise_init 2 0 ble_updated)) = 0xDEADBEEF
   \<and> \<not> ble_initialized ble_starting
   \<and> device_id (snd (ble_advertise_init 2 0 ble_starting)) = 2"
proof -
  have upd: "ble_initialized ble_updated" "reading_id ble_updated = 1"
    "device_id ble_updated = 0xDEADBEEF"
    by (simp_all add: ble_updated_def ble_advertise_update_active ble_active_fields
        build_adv_data_other_fields)
  have st: "\<not> ble_initialized ble_starting"
    by (simp add: ble_starting_eq ble_boot_def)
  show ?thesis
    using upd st start_guarded_only_when_active [of ble_updated 2 0]
      start_guarded_only_when_active [of ble_starting 2 0]
    by simp
qed

text \<open>
  Claim C9. \<open>stop()\<close> on a controller that is not active (Uninitialized or Stopped) leaves
  the whole state as it was, radio trace and console included; it returns nothing, so it
  reports no error. Hence a second \<open>stop()\<close> in a row changes nothing.
\<close>

theorem stop_when_not_active:
  "(\<not> ble_initialized s \<longrightarrow> ble_advertise_deinit s = s)
   \<and> ble_advertise_deinit (ble_advertise_deinit s) = ble_advertise_deinit s"
  by (simp add: ble_advertise_deinit_def Let_def call_def printf_def)

theorem stop_when_not_active_witness:
  "\<not> ble_initialized ble_boot
   \<and> ble_advertise_deinit ble_boot = ble_boot
   \<and> \<not> ble_initialized (ble_advertise_deinit ble_active)
   \<and> ble_advertise_deinit (ble_advertise_deinit ble_active) = ble_advertise_deinit ble_active
   \<and> radio (ble_advertise_deinit ble_active) \<noteq> radio ble_active"
proof -
  have boot: "\<not> ble_initialized ble_boot"
    by (simp add: ble_boot_def)
  have act: "\<not> ble_initialized (ble_advertise_deinit ble_active)"
    "radio (ble_advertise_deinit ble_active) \<noteq> radio ble_active"
    by (simp_all add: ble_advertise_deinit_def Let_def call_def printf_def ble_active_fields)
  show ?thesis
    using boot act stop_when_not_active [of ble_boot] stop_when_not_active [of ble_active]
    by simp
qed

text \<open>
  Claim C10. \<open>ble_advertise_init\<close> returns 0 for every device identifier, every state and
  every result of \<open>cyw43_arch_init()\<close>. A non-zero result is printed, and the
  initialisation goes on with the same calls as after a zero result.
\<close>

theorem init_always_returns_zero:
  "fst (ble_advertise_init dev_id cyw43_result s) = 0
   \<and> (\<not> ble_initialized s \<and> cyw43_result \<noteq> 0 \<longrightarrow>
        console (snd (ble_advertise_init dev_id cyw43_result s)) =
          console s @ [Log_cyw43_arch_init_returned cyw43_result,
            Log_initialization_started dev_id, Log_waiting_for_btstack]
        \<and> radio (snd (ble_advertise_init dev_id cyw43_result s)) =
          radio s @ [Cyw43_arch_init, L2cap_init, Sm_init, Hci_add_event_handler,
            Hci_power_control HCI_POWER_ON])"
  by (cases "ble_initialized s")
    (simp_all add: ble_advertise_init_active ble_advertise_init_inactive)

theorem init_always_returns_zero_witness:
  "\<not> ble_initialized ble_boot \<and> (- 1 :: int) \<noteq> 0
   \<and> fst (ble_advertise_init 0xDEADBEEF (- 1) ble_boot) = 0
   \<and> console (snd (ble_advertise_init 0xDEADBEEF (- 1) ble_boot)) =
       [Log_cyw43_arch_init_returned (- 1), Log_initialization_started 0xDEADBEEF,
        Log_waiting_for_btstack]
   \<and> radio (snd (ble_advertise_init 0xDEADBEEF (- 1) ble_boot)) =
       [Cyw43_arch_init, L2cap_init, Sm_init, Hci_add_event_handler,
        Hci_power_control HCI_POWER_ON]"
proof -
  have boot: "\<not> ble_initialized ble_boot"
    by (simp add: ble_boot_def)
  show ?thesis
    using boot init_always_returns_zero [of "0xDEADBEEF" "- 1" ble_boot]
    by (simp add: ble_boot_def)
qed

end
